theory Spec2Isabelle
  imports Complex_Main "HOL-Library.AList"
begin

section \<open>Numbers and series\<close>

text \<open>
  The program computes with float64 values held in pandas series. A finite float is
  modelled as a real number and NaN (a missing value) as \<open>None\<close>; rounding, overflow
  and signed zeros are not modelled. The model has no infinities: where a numpy
  operation on finite operands gives an infinity (a division by zero), the model gives
  \<open>None\<close>, so \<open>None\<close> reads "not a finite number". The one place of the
  program where an infinity turns back into a finite number is written out in
  \<open>sat_vaporpress\<close>.
\<close>

type_synonym val = "real option"

fun fadd :: "val \<Rightarrow> val \<Rightarrow> val" where
  "fadd (Some a) (Some b) = Some (a + b)"
| "fadd _ _ = None"

fun fsub :: "val \<Rightarrow> val \<Rightarrow> val" where
  "fsub (Some a) (Some b) = Some (a - b)"
| "fsub _ _ = None"

fun fmul :: "val \<Rightarrow> val \<Rightarrow> val" where
  "fmul (Some a) (Some b) = Some (a * b)"
| "fmul _ _ = None"

fun fdiv :: "val \<Rightarrow> val \<Rightarrow> val" where
  "fdiv (Some a) (Some b) = (if b = 0 then None else Some (a / b))"
| "fdiv _ _ = None"

fun fneg :: "val \<Rightarrow> val" where
  "fneg (Some a) = Some (- a)"
| "fneg None = None"

text \<open>\<open>x ** n\<close> for a literal natural exponent.\<close>

fun fpown :: "val \<Rightarrow> nat \<Rightarrow> val" where
  "fpown (Some a) n = Some (a ^ n)"
| "fpown None n = None"

text \<open>
  \<open>x ** y\<close> for a literal exponent \<open>y\<close> that is positive and not an integer (the
  program's only one is \<open>1 / 7\<close>): numpy gives NaN on a negative base and 0 on 0.
\<close>

fun fpow_frac :: "val \<Rightarrow> real \<Rightarrow> val" where
  "fpow_frac (Some a) y = (if a < 0 then None else Some (a powr y))"
| "fpow_frac None y = None"

text \<open>\<open>x > c\<close>: a comparison with NaN is false.\<close>

fun fgt :: "val \<Rightarrow> real \<Rightarrow> bool" where
  "fgt (Some a) c = (c < a)"
| "fgt None c = False"

text \<open>
  A series is the list of its values. Every series of one run shares one index (the
  orchestration aligns them), so the label of a value is its position, as with the
  default index of pandas. Reading a label a series does not have gives NaN: this is
  how pandas aligns two operands of different index.
\<close>

type_synonym series = "val list"

definition value_at :: "series \<Rightarrow> nat \<Rightarrow> val" where
  "value_at xs i = (if i < length xs then xs ! i else None)"

section \<open>The flux functions of lake\_sheatbalance.py\<close>

text \<open>
  Each function but \<open>swrad_in\<close> is one arithmetic expression; it is modelled on one
  element, with the source's constants, operator precedence and association.
\<close>

definition atm_emmissivity :: "val \<Rightarrow> val \<Rightarrow> val \<Rightarrow> val" where
  "atm_emmissivity temp cc ew =
     (let A1 = Some 0.98; A2 = Some 0.17; A3 = Some 1.24;
          atemp_k = fadd temp (Some 273.15)
      in fmul (fmul (fmul A1 (fadd (Some 1) (fmul A2 (fpown cc 2)))) A3)
              (fpow_frac (fdiv ew atemp_k) (1 / 7)))"

definition absorved_lw :: "val \<Rightarrow> val \<Rightarrow> val" where
  "absorved_lw temp emi =
     (let A1 = 0.03; sigma = 5.67 / 10 ^ 8;
          atemp_k = fadd temp (Some 273.15)
      in fmul (fmul (fmul (Some (1 - A1)) emi) (Some sigma)) (fpown atemp_k 4))"

definition emmited_lw :: "val \<Rightarrow> val" where
  "emmited_lw wtemp =
     (let A1 = 0.972; sigma = 5.67 / 10 ^ 8;
          wtemp_k = fadd wtemp (Some 273.15)
      in fmul (fmul (Some (- A1)) (Some sigma)) (fpown wtemp_k 4))"

text \<open>
  \<open>ew = A1 * np.exp((A2 * temp) / (A3 + temp))\<close>. At \<open>A3 + temp = 0\<close> numpy divides
  the negative number \<open>A2 * temp\<close> by zero, which is \<open>-inf\<close>, and \<open>exp(-inf)\<close>
  is 0.
\<close>

definition sat_vaporpress :: "val \<Rightarrow> val" where
  "sat_vaporpress temp =
     (let A1 = 6.112; A2 = 17.62; A3 = 243.12
      in case temp of
           None \<Rightarrow> None
         | Some t \<Rightarrow>
             if A3 + t = 0 then Some (A1 * 0)
             else Some (A1 * exp ((A2 * t) / (A3 + t))))"

definition transfer_function :: "val \<Rightarrow> val \<Rightarrow> val \<Rightarrow> val" where
  "transfer_function wind10 wtemp temp =
     (let A1 = Some 4.8; A2 = Some 1.98; A3 = Some 0.28
      in fadd (fadd A1 (fmul A2 wind10)) (fmul A3 (fsub wtemp temp)))"

definition latent_heat :: "val \<Rightarrow> val \<Rightarrow> val \<Rightarrow> val" where
  "latent_heat f1 ew ea = fmul (fneg f1) (fsub ew ea)"

definition vapor_pressure :: "val \<Rightarrow> val \<Rightarrow> val" where
  "vapor_pressure temp rh =
     (let es = sat_vaporpress temp
      in fdiv (fmul rh es) (Some 100))"

definition psychrometric_constant :: "val \<Rightarrow> val" where
  "psychrometric_constant airp =
     (let CP = Some 1005; LV = Some 2470000; MV = Some 0.622
      in fdiv (fmul CP airp) (fmul LV MV))"

definition sensible_heat :: "val \<Rightarrow> val \<Rightarrow> val \<Rightarrow> val \<Rightarrow> val" where
  "sensible_heat psy f1 wtemp temp = fmul (fmul (fneg psy) f1) (fsub wtemp temp)"

definition heat_balance :: "val \<Rightarrow> val \<Rightarrow> val \<Rightarrow> val \<Rightarrow> val \<Rightarrow> val" where
  "heat_balance hs ha hw he hc = fadd (fadd (fadd (fadd hs ha) hw) he) hc"


subsection \<open>Absorbed shortwave radiation: the one function that assigns in place\<close>

text \<open>
  Python passes references, and \<open>swrad_in\<close> assigns into a series with \<open>.loc\<close>, so
  it is modelled over a store of series objects: an address is a position of the store,
  a new object is appended. \<open>rad.copy()\<close> and every arithmetic operation of pandas
  make a new object.
\<close>

datatype error = KeyError | IndexError | ValueError | IndexingError | LibraryError

type_synonym addr = nat

type_synonym store = "series list"

definition alloc :: "store \<Rightarrow> series \<Rightarrow> addr \<times> store" where
  "alloc s v = (length s, s @ [v])"

text \<open>\<open>xs.loc[mask]\<close>: the selected values, each with its label.\<close>

definition loc_get :: "series \<Rightarrow> bool list \<Rightarrow> (nat \<times> val) list" where
  "loc_get xs msk = filter (\<lambda>(i, v). msk ! i) (enumerate 0 xs)"

text \<open>
  The product of two selections, aligned on labels; a label the second operand lacks
  gives NaN. (The labels of the second are among those of the first wherever this is
  used: both are selected by one mask.)
\<close>

definition sel_mul :: "(nat \<times> val) list \<Rightarrow> (nat \<times> val) list \<Rightarrow> (nat \<times> val) list" where
  "sel_mul a b =
     map (\<lambda>(i, x). (i, fmul x (case map_of b i of Some y \<Rightarrow> y | None \<Rightarrow> None))) a"

text \<open>\<open>xs.loc[mask] = rhs\<close>: every selected label takes the value \<open>rhs\<close> has there.\<close>

definition loc_set :: "series \<Rightarrow> bool list \<Rightarrow> (nat \<times> val) list \<Rightarrow> series" where
  "loc_set xs msk rhs =
     map (\<lambda>(i, v). if msk ! i then (case map_of rhs i of Some y \<Rightarrow> y | None \<Rightarrow> None) else v)
       (enumerate 0 xs)"

text \<open>
  \<open>albedo.loc[rad > 5]\<close> raises IndexingError when \<open>albedo\<close> has a label the mask
  lacks, that is when it is the longer series.
\<close>

definition swrad_in_st :: "store \<Rightarrow> addr \<Rightarrow> addr \<Rightarrow> error + (addr \<times> store)" where
  "swrad_in_st s rad albedo =
     (let (c, s1) = alloc s (s ! rad);
          (rad_out, s2) = alloc s1 (map (fmul (Some 0)) (s1 ! c));
          msk = map (\<lambda>r. fgt r 5) (s2 ! rad)
      in if length (s2 ! rad) < length (s2 ! albedo) then Inl IndexingError
         else
           let s3 = s2[rad_out := loc_set (s2 ! rad_out) msk
                         (sel_mul (loc_get (s2 ! rad) msk) (loc_get (s2 ! albedo) msk))];
               (hs, s4) = alloc s3 (map2 fsub (s3 ! rad) (s3 ! rad_out))
           in Inr (hs, s4))"

text \<open>The series \<open>swrad_in\<close> returns when called on two series.\<close>

definition swrad_in :: "series \<Rightarrow> series \<Rightarrow> error + series" where
  "swrad_in rad albedo =
     (case swrad_in_st [rad, albedo] 0 1 of
        Inl e \<Rightarrow> Inl e
      | Inr (hs, s) \<Rightarrow> Inr (s ! hs))"

subsection \<open>Invocations of the flux functions on series\<close>

text \<open>
  An invocation names its argument objects. Every function but \<open>swrad_in\<close> evaluates
  its expression elementwise over the union of its arguments' labels and returns a new
  series; none has an assignment to an argument.
\<close>

datatype flux_call =
    Atm_emmissivity addr addr addr
  | Swrad_in addr addr
  | Absorved_lw addr addr
  | Emmited_lw addr
  | Sat_vaporpress addr
  | Transfer_function addr addr addr
  | Latent_heat addr addr addr
  | Vapor_pressure addr addr
  | Psychrometric_constant addr
  | Sensible_heat addr addr addr addr
  | Heat_balance addr addr addr addr addr

fun call_args :: "flux_call \<Rightarrow> addr list" where
  "call_args (Atm_emmissivity a b c) = [a, b, c]"
| "call_args (Swrad_in a b) = [a, b]"
| "call_args (Absorved_lw a b) = [a, b]"
| "call_args (Emmited_lw a) = [a]"
| "call_args (Sat_vaporpress a) = [a]"
| "call_args (Transfer_function a b c) = [a, b, c]"
| "call_args (Latent_heat a b c) = [a, b, c]"
| "call_args (Vapor_pressure a b) = [a, b]"
| "call_args (Psychrometric_constant a) = [a]"
| "call_args (Sensible_heat a b c d) = [a, b, c, d]"
| "call_args (Heat_balance a b c d e) = [a, b, c, d, e]"

definition labels :: "store \<Rightarrow> addr list \<Rightarrow> nat list" where
  "labels s as = [0..<fold max (map (\<lambda>a. length (s ! a)) as) 0]"

fun invoke :: "store \<Rightarrow> flux_call \<Rightarrow> error + (addr \<times> store)" where
  "invoke s (Atm_emmissivity temp cc ew) =
     Inr (alloc s (map (\<lambda>i. atm_emmissivity (value_at (s ! temp) i) (value_at (s ! cc) i)
                               (value_at (s ! ew) i)) (labels s [temp, cc, ew])))"
| "invoke s (Swrad_in rad albedo) = swrad_in_st s rad albedo"
| "invoke s (Absorved_lw temp emi) =
     Inr (alloc s (map (\<lambda>i. absorved_lw (value_at (s ! temp) i) (value_at (s ! emi) i))
                     (labels s [temp, emi])))"
| "invoke s (Emmited_lw wtemp) =
     Inr (alloc s (map (\<lambda>i. emmited_lw (value_at (s ! wtemp) i)) (labels s [wtemp])))"
| "invoke s (Sat_vaporpress temp) =
     Inr (alloc s (map (\<lambda>i. sat_vaporpress (value_at (s ! temp) i)) (labels s [temp])))"
| "invoke s (Transfer_function wind10 wtemp temp) =
     Inr (alloc s (map (\<lambda>i. transfer_function (value_at (s ! wind10) i)
                               (value_at (s ! wtemp) i) (value_at (s ! temp) i))
                     (labels s [wind10, wtemp, temp])))"
| "invoke s (Latent_heat f1 ew ea) =
     Inr (alloc s (map (\<lambda>i. latent_heat (value_at (s ! f1) i) (value_at (s ! ew) i)
                               (value_at (s ! ea) i)) (labels s [f1, ew, ea])))"
| "invoke s (Vapor_pressure temp rh) =
     Inr (alloc s (map (\<lambda>i. vapor_pressure (value_at (s ! temp) i) (value_at (s ! rh) i))
                     (labels s [temp, rh])))"
| "invoke s (Psychrometric_constant airp) =
     Inr (alloc s (map (\<lambda>i. psychrometric_constant (value_at (s ! airp) i))
                     (labels s [airp])))"
| "invoke s (Sensible_heat psy f1 wtemp temp) =
     Inr (alloc s (map (\<lambda>i. sensible_heat (value_at (s ! psy) i) (value_at (s ! f1) i)
                               (value_at (s ! wtemp) i) (value_at (s ! temp) i))
                     (labels s [psy, f1, wtemp, temp])))"
| "invoke s (Heat_balance hs ha hw he hc) =
     Inr (alloc s (map (\<lambda>i. heat_balance (value_at (s ! hs) i) (value_at (s ! ha) i)
                               (value_at (s ! hw) i) (value_at (s ! he) i) (value_at (s ! hc) i))
                     (labels s [hs, ha, hw, he, hc])))"

section \<open>The heat content computation of main.py\<close>

text \<open>
  A table (a pandas DataFrame indexed by time) is its index, the time stamps in
  nanoseconds, and its columns in order, each a name and a series as long as the index.
  Column names are distinct and so are the time stamps.
\<close>

record frame =
  index :: "int list"
  columns :: "(string \<times> series) list"


text \<open>\<open>f[k]\<close> raises KeyError on a missing column.\<close>

definition getcol :: "frame \<Rightarrow> string \<Rightarrow> error + series" where
  "getcol f k = (case map_of (columns f) k of None \<Rightarrow> Inl KeyError | Some c \<Rightarrow> Inr c)"

text \<open>\<open>f[k] = c\<close> overwrites the column where it stands, or appends a new one.\<close>

definition setcol :: "frame \<Rightarrow> string \<Rightarrow> series \<Rightarrow> frame" where
  "setcol f k c = f\<lparr>columns := AList.update k c (columns f)\<rparr>"

text \<open>\<open>f.iloc[i].values\<close>: the row at position \<open>i\<close>, in column order.\<close>

definition iloc :: "frame \<Rightarrow> nat \<Rightarrow> error + series" where
  "iloc f i =
     (if i < length (index f) then Inr (map (\<lambda>(k, c). c ! i) (columns f))
      else Inl IndexError)"

definition isna :: "series \<Rightarrow> bool list" where
  "isna c = map (\<lambda>v. v = None) c"

text \<open>
  A boolean series used as a row selector of a table is aligned on the table's index:
  used as it is when the two indexes are equal, looked up label by label otherwise,
  and IndexingError when the table has a label the selector lacks.
\<close>

definition align_msk :: "int list \<Rightarrow> int list \<Rightarrow> bool list \<Rightarrow> error + bool list" where
  "align_msk idx midx msk =
     (if midx = idx then Inr msk
      else if list_all (\<lambda>t. t \<in> set midx) idx
      then Inr (map (\<lambda>t. case map_of (zip midx msk) t of Some b \<Rightarrow> b | None \<Rightarrow> False) idx)
      else Inl IndexingError)"

text \<open>
  Lines 105 to 107 of \<open>heat_content\<close>: both tables passed in are assigned to. The
  updated tables are part of the result.
  \<^verbatim>\<open>
    temp_data["0"] = temp_data["0.45"]
    depth_data["0"] = 0
    depth_data.loc[temp_data["0.45"].isna(), "0"] = np.nan
  \<close>
\<close>

definition add_surface :: "frame \<Rightarrow> frame \<Rightarrow> error + (frame \<times> frame)" where
  "add_surface temp_data depth_data =
     (case getcol temp_data ''0.45'' of
        Inl e \<Rightarrow> Inl e
      | Inr t045 \<Rightarrow>
          let temp_data = setcol temp_data ''0'' t045;
              depth_data = setcol depth_data ''0'' (replicate (length (index depth_data)) (Some 0))
          in (case getcol temp_data ''0.45'' of
                Inl e \<Rightarrow> Inl e
              | Inr t \<Rightarrow>
                  (case align_msk (index depth_data) (index temp_data) (isna t) of
                     Inl e \<Rightarrow> Inl e
                   | Inr msk \<Rightarrow>
                       (case getcol depth_data ''0'' of
                          Inl e \<Rightarrow> Inl e
                        | Inr d0 \<Rightarrow>
                            Inr (temp_data,
                                 setcol depth_data ''0''
                                   (map2 (\<lambda>b v. if b then None else v) msk d0))))))"

text \<open>
  The bathymetric curve is the table of (depth, area) rows that \<open>main\<close> reads with
  the column names \<open>Depth_m\<close> and \<open>Area_m2\<close>.
\<close>

type_synonym bath = "(val \<times> val) list"

definition Depth_m :: "bath \<Rightarrow> series" where
  "Depth_m b = map fst b"

definition Area_m2 :: "bath \<Rightarrow> series" where
  "Area_m2 b = map snd b"

text \<open>
  \<open>pylake.heat_content\<close> is a library function, not code of this repository: it is a
  parameter \<open>hc\<close>, given the profile's temperatures, the areas and depths of the
  curve and the profile's depths, and returning the first value of its result or an
  error. It is taken to leave its arguments alone.

  The loop of \<open>heat_content\<close> over the positions of \<open>temp_data.index\<close>. Building
  \<open>data_p\<close> raises ValueError when the two rows differ in length.
\<close>

type_synonym integrator = "series \<Rightarrow> series \<Rightarrow> series \<Rightarrow> series \<Rightarrow> error + val"

fun heat_rows :: "integrator \<Rightarrow> frame \<Rightarrow> frame \<Rightarrow> bath \<Rightarrow> nat list \<Rightarrow> error + series" where
  "heat_rows hc temp_data depth_data bath_data [] = Inr []"
| "heat_rows hc temp_data depth_data bath_data (i # is) =
     (case iloc depth_data i of
        Inl e \<Rightarrow> Inl e
      | Inr Depth \<Rightarrow>
          (case iloc temp_data i of
             Inl e \<Rightarrow> Inl e
           | Inr Temp_C \<Rightarrow>
               if length Depth \<noteq> length Temp_C then Inl ValueError
               else
                 (case (if list_all (\<lambda>v. v = None) Temp_C then Inr None
                        else hc Temp_C (Area_m2 bath_data) (Depth_m bath_data) Depth) of
                    Inl e \<Rightarrow> Inl e
                  | Inr h \<Rightarrow>
                      (case heat_rows hc temp_data depth_data bath_data is of
                         Inl e \<Rightarrow> Inl e
                       | Inr heatc_data \<Rightarrow> Inr (h # heatc_data)))))"

text \<open>
  \<open>heat_content\<close> returns the series of heat contents, indexed as \<open>temp_data\<close>;
  the model returns with it its three arguments as the call leaves them. Nothing in the
  function assigns to \<open>bath_data\<close>.
\<close>

definition heat_content ::
  "integrator \<Rightarrow> frame \<Rightarrow> frame \<Rightarrow> bath \<Rightarrow> error + (frame \<times> frame \<times> bath \<times> series)" where
  "heat_content hc temp_data depth_data bath_data =
     (case add_surface temp_data depth_data of
        Inl e \<Rightarrow> Inl e
      | Inr (temp_data, depth_data) \<Rightarrow>
          (case heat_rows hc temp_data depth_data bath_data [0..<length (index temp_data)] of
             Inl e \<Rightarrow> Inl e
           | Inr heatc_data \<Rightarrow> Inr (temp_data, depth_data, bath_data, heatc_data)))"

section \<open>Budget closure and flow inference in main\<close>

text \<open>\<open>xs.diff()\<close>: the first value is NaN.\<close>

fun diff :: "series \<Rightarrow> series" where
  "diff [] = []"
| "diff (x # xs) = None # map2 (\<lambda>a b. fsub b a) (x # xs) xs"

text \<open>\<open>index.to_series().diff().dt.total_seconds()\<close>.\<close>

fun total_seconds_diff :: "int list \<Rightarrow> series" where
  "total_seconds_diff [] = []"
| "total_seconds_diff (t # ts) =
     None # map2 (\<lambda>a b. Some (real_of_int (b - a) / 10 ^ 9)) (t # ts) ts"

text \<open>\<open>xs.max()\<close> skips NaN, and is NaN when nothing is left.\<close>

definition series_max :: "series \<Rightarrow> val" where
  "series_max xs =
     (case [a. Some a \<leftarrow> xs] of
        [] \<Rightarrow> None
      | a # as \<Rightarrow> Some (fold max as a))"

text \<open>
  An operation of two series aligns them on the union of their labels.
\<close>

definition series_op :: "(val \<Rightarrow> val \<Rightarrow> val) \<Rightarrow> series \<Rightarrow> series \<Rightarrow> series" where
  "series_op f xs ys =
     map (\<lambda>i. f (value_at xs i) (value_at ys i)) [0..<max (length xs) (length ys)]"

text \<open>
  Lines 58 and 59 of \<open>main\<close>:
  \<^verbatim>\<open>
    dhdt = heatc_data.diff() / heatc_data.index.to_series().diff().dt.total_seconds()
    dhw = -(dhdt - hnet) * bath_data.Area_m2.max()
  \<close>
\<close>

definition main_dhdt :: "int list \<Rightarrow> series \<Rightarrow> series" where
  "main_dhdt idx heatc_data = series_op fdiv (diff heatc_data) (total_seconds_diff idx)"

definition main_dhw :: "series \<Rightarrow> series \<Rightarrow> bath \<Rightarrow> series" where
  "main_dhw dhdt hnet bath_data =
     map (\<lambda>x. fmul (fneg x) (series_max (Area_m2 bath_data))) (series_op fsub dhdt hnet)"

text \<open>
  \<open>np.linspace(start, stop, num)\<close>, a numpy function: \<open>num\<close> evenly spaced values,
  the step being \<open>(stop - start) / (num - 1)\<close> and the last value \<open>stop\<close> itself.
\<close>

definition linspace :: "val \<Rightarrow> val \<Rightarrow> nat \<Rightarrow> series" where
  "linspace start stop num =
     (if num = 1 then [fadd (fmul (Some 0) (fsub stop start)) start]
      else map (\<lambda>i. if i = num - 1 then stop
                     else fadd (fmul (Some (real i))
                                  (fdiv (fsub stop start) (Some (real (num - 1))))) start)
             [0..<num])"

text \<open>
  Lines 61 to 76 of \<open>main\<close>. \<open>pylake.dens0\<close>, the density of water at a
  temperature, is a library function: the parameter \<open>dens0\<close>, applied to each value.
  The two arrays of the last division have one length, that of \<open>dhw\<close>.
  \<^verbatim>\<open>
    wtemp = pd.Series(np.linspace(2, temp_data["0"].max(), len(dhw)), ...)
    wheat = pd.Series(pylake.dens0(wtemp) * 4186 * wtemp, ...)
    flow = pd.Series(dhw.values / wheat.values, ...)
  \<close>
\<close>

definition main_wtemp :: "series \<Rightarrow> series \<Rightarrow> series" where
  "main_wtemp temp0 dhw = linspace (Some 2) (series_max temp0) (length dhw)"

definition main_wheat :: "(val \<Rightarrow> val) \<Rightarrow> series \<Rightarrow> series" where
  "main_wheat dens0 wtemp = map (\<lambda>t. fmul (fmul (dens0 t) (Some 4186)) t) wtemp"

definition main_flow :: "series \<Rightarrow> series \<Rightarrow> series" where
  "main_flow dhw wheat = map2 fdiv dhw wheat"

section \<open>Notions of the specification\<close>


text \<open>The area the curve gives at depth 0: that of its first row of depth 0.\<close>

definition spec_area_at_depth0 :: "bath \<Rightarrow> val" where
  "spec_area_at_depth0 b =
     (case filter (\<lambda>(d, a). d = Some 0) b of [] \<Rightarrow> None | (d, a) # _ \<Rightarrow> a)"

section \<open>Properties of the flux functions\<close>

subsection \<open>What \<open>swrad_in\<close> does to the store\<close>

lemma swrad_in_st_eq:
  assumes "rad < length s" "albedo < length s"
  shows "swrad_in_st s rad albedo =
     (if length (s ! rad) < length (s ! albedo) then Inl IndexingError
      else
        let msk = map (\<lambda>r. fgt r 5) (s ! rad);
            rad_out = loc_set (map (fmul (Some 0)) (s ! rad)) msk
                        (sel_mul (loc_get (s ! rad) msk) (loc_get (s ! albedo) msk))
        in Inr (length s + 2, s @ [s ! rad, rad_out, map2 fsub (s ! rad) rad_out]))"
  using assms
  by (simp add: swrad_in_st_def alloc_def Let_def nth_append list_update_append)

lemma map_of_enumerate:
  "map_of (enumerate n xs) i =
     (if n \<le> i \<and> i < n + length xs then Some (xs ! (i - n)) else None)"
proof (induction xs arbitrary: n)
  case Nil
  then show ?case by simp
next
  case (Cons x xs)
  show ?case
    by (auto simp: Cons.IH Suc_diff_le nth_Cons')
qed

lemma map_of_loc_get:
  "map_of (loc_get xs msk) i = (if i < length xs \<and> msk ! i then Some (xs ! i) else None)"
proof -
  have "loc_get xs msk = filter (\<lambda>p. (\<lambda>i. msk ! i) (fst p)) (enumerate 0 xs)"
    by (simp add: loc_get_def case_prod_unfold)
  then show ?thesis
    by (simp only: map_of_filter) (simp add: restrict_map_def map_of_enumerate)
qed

lemma map_of_sel_mul:
  "map_of (sel_mul a b) i =
     map_option (\<lambda>x. fmul x (case map_of b i of Some y \<Rightarrow> y | None \<Rightarrow> None)) (map_of a i)"
  unfolding sel_mul_def by (induction a) auto

lemma nth_loc_set:
  "i < length xs \<Longrightarrow>
   loc_set xs msk rhs ! i =
     (if msk ! i then (case map_of rhs i of Some y \<Rightarrow> y | None \<Rightarrow> None) else xs ! i)"
  by (simp add: loc_set_def nth_enumerate_eq)

lemma length_loc_set: "length (loc_set xs msk rhs) = length xs"
  by (simp add: loc_set_def)

subsection \<open>Absorbed shortwave radiation\<close>

text \<open>
  Claim C5. On aligned series \<open>rad\<close> and \<open>albedo\<close>, \<open>swrad_in\<close> returns a series
  as long as \<open>rad\<close> whose value at a label is the radiation \<open>r\<close> there unchanged when
  \<open>r \<le> 5\<close>, and \<open>r * (1 - a)\<close> when \<open>r > 5\<close> and the albedo there is \<open>a\<close>. The albedo
  need not lie in [0, 1] for this. (The source computes \<open>r - r * a\<close>, the same real
  number.)
\<close>

theorem swrad_in_threshold:
  assumes "length albedo = length rad" "i < length rad" "rad ! i = Some r"
  shows "\<exists>hs. swrad_in rad albedo = Inr hs \<and> length hs = length rad \<and>
           (r \<le> 5 \<longrightarrow> hs ! i = Some r) \<and>
           (5 < r \<longrightarrow> albedo ! i = Some a \<longrightarrow> hs ! i = Some (r * (1 - a)))"
  using assms
  by (auto simp: swrad_in_def swrad_in_st_eq Let_def length_loc_set nth_loc_set
      map_of_sel_mul map_of_loc_get algebra_simps)

theorem swrad_in_threshold_witness:
  "swrad_in [Some 3, Some 10] [Some (1 / 10), Some (1 / 10)] = Inr [Some 3, Some 9] \<and>
   (\<exists>hs. swrad_in [Some 3, Some 10] [Some (1 / 10), Some (1 / 10)] = Inr hs \<and>
      length hs = 2 \<and> hs ! 1 = Some (10 * (1 - 1 / 10)))"
  using swrad_in_threshold [of "[Some (1 / 10), Some (1 / 10)]" "[Some 3, Some 10]" 1 10 "1 / 10"]
  by (simp add: swrad_in_def swrad_in_st_def alloc_def loc_set_def loc_get_def sel_mul_def
      enumerate_eq_zip upt_rec)

subsection \<open>Latent heat and the transfer function\<close>

text \<open>
  Claim C3, as stated, fails: the transfer function is not positive everywhere. With no
  wind, water at 4 degrees and air at 24 degrees it is \<open>4.8 - 5.6 = -0.8\<close>, and for
  vapor pressures 2 > 1 the latent heat is \<open>+0.8\<close>, not negative.
\<close>

theorem latent_heat_positive_counterexample:
  "transfer_function (Some 0) (Some 4) (Some 24) = Some (- (4 / 5)) \<and>
   latent_heat (transfer_function (Some 0) (Some 4) (Some 24)) (Some 2) (Some 1) = Some (4 / 5) \<and>
   (1::real) < 2 \<and> (0::real) < 4 / 5"
  by (simp add: latent_heat_def transfer_function_def)

text \<open>
  Claim C3, amended. For every transfer-function value \<open>f1\<close> and vapor pressures
  \<open>ew > ea\<close>, the latent heat is \<open>- f1 * (ew - ea)\<close>, and it is negative exactly when
  \<open>f1\<close> is positive; the transfer function is
  \<open>4.8 + 1.98 * wind10 + 0.28 * (wtemp - temp)\<close>.
\<close>

theorem latent_heat_sign:
  assumes "ea < ew"
  shows "latent_heat (Some f1) (Some ew) (Some ea) = Some (- f1 * (ew - ea)) \<and>
         ((- f1 * (ew - ea) < 0) = (0 < f1)) \<and>
         transfer_function (Some wind10) (Some wtemp) (Some temp) =
           Some (4.8 + 1.98 * wind10 + 0.28 * (wtemp - temp))"
  using assms
  by (simp add: latent_heat_def transfer_function_def mult_less_0_iff zero_less_mult_iff)

theorem latent_heat_sign_witness:
  "(1::real) < 2 \<and>
   latent_heat (Some 3) (Some 2) (Some 1) = Some (- 3) \<and>
   transfer_function (Some 2) (Some 8) (Some 10) = Some (82 / 10)"
  using latent_heat_sign [of 1 2 3 2 8 10]
  by simp

subsection \<open>Sensible heat\<close>

text \<open>
  Claim C7. With \<open>wind10 \<ge> 0\<close>, air pressure \<open>> 0\<close> and water warmer than air, the
  psychrometric constant and the transfer function are defined, the sensible heat
  computed from them is \<open>- psy * f1 * (wtemp - temp)\<close>, and it is negative.
\<close>

theorem sensible_heat_loss:
  assumes "0 \<le> wind10" "0 < airp" "temp < wtemp"
  shows "\<exists>psy f1. psychrometric_constant (Some airp) = Some psy \<and>
     transfer_function (Some wind10) (Some wtemp) (Some temp) = Some f1 \<and>
     sensible_heat (psychrometric_constant (Some airp))
       (transfer_function (Some wind10) (Some wtemp) (Some temp)) (Some wtemp) (Some temp) =
       Some (- psy * f1 * (wtemp - temp)) \<and>
     - psy * f1 * (wtemp - temp) < 0"
proof -
  let ?psy = "1005 * airp / (2470000 * 0.622)"
  let ?f1 = "4.8 + 1.98 * wind10 + 0.28 * (wtemp - temp)"
  have p: "0 < ?psy" using assms by simp
  have f: "0 < ?f1" using assms
    by (intro add_pos_nonneg mult_nonneg_nonneg) simp_all
  have "0 < ?psy * ?f1 * (wtemp - temp)"
    using p f assms by (intro mult_pos_pos) simp_all
  then have neg: "- ?psy * ?f1 * (wtemp - temp) < 0" by simp
  have 1: "psychrometric_constant (Some airp) = Some ?psy"
    by (simp add: psychrometric_constant_def)
  have 2: "transfer_function (Some wind10) (Some wtemp) (Some temp) = Some ?f1"
    by (simp add: transfer_function_def)
  have 3: "sensible_heat (Some ?psy) (Some ?f1) (Some wtemp) (Some temp) =
             Some (- ?psy * ?f1 * (wtemp - temp))"
    by (simp add: sensible_heat_def)
  from 1 2 3 neg show ?thesis by (metis (no_types))
qed

theorem sensible_heat_loss_witness:
  "(0::real) \<le> 2 \<and> (0::real) < 850 \<and> (8::real) < 10 \<and>
   (\<exists>psy f1. psychrometric_constant (Some 850) = Some psy \<and>
      transfer_function (Some 2) (Some 10) (Some 8) = Some f1 \<and>
      sensible_heat (psychrometric_constant (Some 850))
        (transfer_function (Some 2) (Some 10) (Some 8)) (Some 10) (Some 8) =
        Some (- psy * f1 * (10 - 8)) \<and>
      - psy * f1 * (10 - 8) < 0)"
  using sensible_heat_loss [of 2 850 8 10]
  by simp

subsection \<open>Vapor pressure\<close>






section \<open>Properties of the heat content computation\<close>

subsection \<open>Tables\<close>

lemma getcol_setcol: "getcol (setcol f k c) k' = (if k' = k then Inr c else getcol f k')"
  by (simp add: getcol_def setcol_def update_conv')

lemma index_setcol: "index (setcol f k c) = index f"
  by (simp add: setcol_def)

lemma columns_setcol: "columns (setcol f k c) = AList.update k c (columns f)"
  by (simp add: setcol_def)

lemma setcol_setcol: "setcol (setcol f k a) k b = setcol f k b"
  by (simp add: setcol_def)

lemma set_update_subset: "set (AList.update k v al) \<subseteq> insert (k, v) (set al)"
  by (induction al) auto

lemma length_update_names:
  "map fst al = map fst bl \<Longrightarrow> length (AList.update k v al) = length (AList.update k w bl)"
proof (induction al arbitrary: bl)
  case Nil
  then show ?case by simp
next
  case (Cons a al)
  then obtain b bl' where bl: "bl = b # bl'" by (cases bl) auto
  with Cons.prems have "fst a = fst b" "map fst al = map fst bl'" by simp_all
  with Cons.IH[of bl'] bl map_eq_imp_length_eq[of fst al fst bl'] show ?case
    by (cases a, cases b) simp
qed

lemma getcol_in_columns: "getcol f k = Inr c \<Longrightarrow> (k, c) \<in> set (columns f)"
  by (auto simp: getcol_def split: option.splits dest: map_of_SomeD)

lemma align_msk_same: "align_msk idx idx msk = Inr msk"
  by (simp add: align_msk_def)

subsection \<open>The surface point\<close>

lemma add_surface_Inr:
  assumes "add_surface temp_data depth_data = Inr (T, D)"
  shows "\<exists>t045 msk.
           getcol temp_data ''0.45'' = Inr t045 \<and>
           T = setcol temp_data ''0'' t045 \<and>
           align_msk (index depth_data) (index temp_data) (isna t045) = Inr msk \<and>
           D = setcol depth_data ''0''
                 (map2 (\<lambda>b v. if b then None else v) msk
                    (replicate (length (index depth_data)) (Some 0)))"
  using assms
  by (auto simp: add_surface_def Let_def getcol_setcol index_setcol setcol_setcol
      split: sum.splits)

lemma add_surface_aligned:
  assumes "getcol temp_data ''0.45'' = Inr t045" "index depth_data = index temp_data"
  shows "add_surface temp_data depth_data =
           Inr (setcol temp_data ''0'' t045,
                setcol depth_data ''0''
                  (map2 (\<lambda>b v. if b then None else v) (isna t045)
                     (replicate (length (index depth_data)) (Some 0))))"
  using assms
  by (simp add: add_surface_def Let_def getcol_setcol index_setcol setcol_setcol
      align_msk_same)

subsection \<open>The loop over the time stamps\<close>

lemma heat_rows_Cons:
  assumes "heat_rows hc T D B (i # is) = Inr hs"
  shows "\<exists>h hs' Depth Temp_C.
           hs = h # hs' \<and> heat_rows hc T D B is = Inr hs' \<and>
           iloc D i = Inr Depth \<and> iloc T i = Inr Temp_C \<and> length Depth = length Temp_C \<and>
           (if list_all (\<lambda>v. v = None) Temp_C then h = None
            else hc Temp_C (Area_m2 B) (Depth_m B) Depth = Inr h)"
  using assms by (auto split: sum.splits if_splits)

lemma iloc_all_None:
  assumes "iloc T i = Inr Temp_C"
  shows "list_all (\<lambda>v. v = None) Temp_C = list_all (\<lambda>(k, c). c ! i = None) (columns T)"
  using assms by (auto simp: iloc_def list_all_iff split: if_splits)

lemma heat_rows_undefined:
  assumes "heat_rows hc T D B is = Inr hs"
  shows "length hs = length is \<and>
         (\<forall>j < length is.
            list_all (\<lambda>(k, c). c ! (is ! j) = None) (columns T) \<longrightarrow> hs ! j = None)"
  using assms
proof (induction "is" arbitrary: hs)
  case Nil
  then show ?case by simp
next
  case (Cons i "is")
  from heat_rows_Cons[OF Cons.prems] obtain h hs' Depth Temp_C where
    hs: "hs = h # hs'" and rest: "heat_rows hc T D B is = Inr hs'"
    and row: "iloc T i = Inr Temp_C"
    and h: "list_all (\<lambda>v. v = None) Temp_C \<longrightarrow> h = None"
    by (metis (full_types))
  from h iloc_all_None[OF row]
  have h': "list_all (\<lambda>(k, c). c ! i = None) (columns T) \<longrightarrow> h = None" by simp
  from Cons.IH[OF rest] hs h' show ?case
    by (auto simp: nth_Cons')
qed

text \<open>
  The loop returns when the two tables have as many rows as it visits and as many
  columns as each other, and the integrator returns.
\<close>

lemma heat_rows_returns:
  assumes "\<forall>i \<in> set is. i < length (index T) \<and> i < length (index D)"
    and "length (columns D) = length (columns T)"
    and "\<forall>t a d z. \<exists>h. hc t a d z = Inr h"
  shows "\<exists>hs. heat_rows hc T D B is = Inr hs"
  using assms(1)
proof (induction "is")
  case Nil
  then show ?case by simp
next
  case (Cons i "is")
  then obtain hs where hs: "heat_rows hc T D B is = Inr hs" by auto
  obtain h where h:
    "hc (map (\<lambda>(k, c). c ! i) (columns T)) (Area_m2 B) (Depth_m B)
        (map (\<lambda>(k, c). c ! i) (columns D)) = Inr h"
    using assms(3) by blast
  from Cons.prems have "i < length (index T)" "i < length (index D)" by simp_all
  with hs h assms(2) show ?case
    by (simp add: iloc_def)
qed

text \<open>
  \<open>heat_content\<close> returns for two tables of one index and the same column names, the
  column \<open>0.45\<close> among them, when the integrator returns.
\<close>

lemma heat_content_returns:
  assumes "getcol temp_data ''0.45'' = Inr t045"
    and "index depth_data = index temp_data"
    and "map fst (columns depth_data) = map fst (columns temp_data)"
    and "\<forall>t a d z. \<exists>h. hc t a d z = Inr h"
  shows "\<exists>T D heatc_data.
           heat_content hc temp_data depth_data bath_data = Inr (T, D, bath_data, heatc_data)"
proof -
  let ?T = "setcol temp_data ''0'' t045"
  let ?D = "setcol depth_data ''0''
              (map2 (\<lambda>b v. if b then None else v) (isna t045)
                 (replicate (length (index depth_data)) (Some 0)))"
  have surf: "add_surface temp_data depth_data = Inr (?T, ?D)"
    by (rule add_surface_aligned[OF assms(1,2)])
  have len: "length (columns ?D) = length (columns ?T)"
    by (simp add: columns_setcol length_update_names[OF assms(3)])
  have rng: "\<forall>i \<in> set [0..<length (index ?T)]. i < length (index ?T) \<and> i < length (index ?D)"
    by (simp add: index_setcol assms(2))
  from heat_rows_returns[OF rng len assms(4)] obtain hs where
    "heat_rows hc ?T ?D bath_data [0..<length (index ?T)] = Inr hs" by blast
  with surf show ?thesis by (simp add: heat_content_def)
qed

subsection \<open>A profile with no reading\<close>

text \<open>
  Claim C4. At a time stamp where every temperature of the table is missing: when
  \<open>heat_content\<close> returns, its result has one value for each time stamp of the
  temperature table and the value at that time stamp is missing (NaN), so it is not
  zero; and \<open>heat_content\<close> does return, with that value missing, for two tables of
  one index and the same column names, the column \<open>0.45\<close> among them, when the
  integrator returns.
\<close>

theorem heat_content_undefined_profile:
  assumes i: "i < length (index temp_data)"
    and undef: "list_all (\<lambda>(k, c). c ! i = None) (columns temp_data)"
  shows "(heat_content hc temp_data depth_data bath_data = Inr (T, D, B, heatc_data) \<longrightarrow>
            length heatc_data = length (index temp_data) \<and> heatc_data ! i = None \<and>
            heatc_data ! i \<noteq> Some 0) \<and>
         (getcol temp_data ''0.45'' = Inr t045 \<and> index depth_data = index temp_data \<and>
          map fst (columns depth_data) = map fst (columns temp_data) \<and>
          (\<forall>t a d z. \<exists>h. hc t a d z = Inr h) \<longrightarrow>
            (\<exists>T' D' hs. heat_content hc temp_data depth_data bath_data =
                           Inr (T', D', bath_data, hs) \<and>
                         length hs = length (index temp_data) \<and> hs ! i = None))"
proof -
  have cond: "length hs = length (index temp_data) \<and> hs ! i = None"
    if ret: "heat_content hc temp_data depth_data bath_data = Inr (T', D', B', hs)"
    for T' D' B' hs
  proof -
    from ret obtain T1 D1 where
      surf: "add_surface temp_data depth_data = Inr (T1, D1)"
      and rows: "heat_rows hc T1 D1 bath_data [0..<length (index T1)] = Inr hs"
      by (auto simp: heat_content_def split: sum.splits)
    from add_surface_Inr[OF surf] obtain c045 where
      c045: "getcol temp_data ''0.45'' = Inr c045" and T1: "T1 = setcol temp_data ''0'' c045"
      by blast
    have idx: "index T1 = index temp_data" by (simp add: T1 index_setcol)
    from undef getcol_in_columns[OF c045] have "c045 ! i = None"
      by (auto simp: list_all_iff)
    with undef have "list_all (\<lambda>(k, c). c ! i = None) (columns T1)"
      using set_update_subset[of "''0''" c045 "columns temp_data"]
      by (auto simp: T1 columns_setcol list_all_iff)
    with heat_rows_undefined[OF rows] i idx show ?thesis by simp
  qed
  have first: "heat_content hc temp_data depth_data bath_data = Inr (T, D, B, heatc_data) \<longrightarrow>
            length heatc_data = length (index temp_data) \<and> heatc_data ! i = None \<and>
            heatc_data ! i \<noteq> Some 0"
    using cond by simp
  have second: "\<exists>T' D' hs. heat_content hc temp_data depth_data bath_data =
                           Inr (T', D', bath_data, hs) \<and>
                         length hs = length (index temp_data) \<and> hs ! i = None"
    if "getcol temp_data ''0.45'' = Inr t045" "index depth_data = index temp_data"
      "map fst (columns depth_data) = map fst (columns temp_data)"
      "\<forall>t a d z. \<exists>h. hc t a d z = Inr h"
  proof -
    from heat_content_returns[OF that] obtain T' D' hs where
      r: "heat_content hc temp_data depth_data bath_data = Inr (T', D', bath_data, hs)"
      by blast
    from cond[OF r] r show ?thesis by blast
  qed
  from first second show ?thesis by blast
qed

theorem heat_content_undefined_profile_witness:
  "heat_content (\<lambda>t a d z. Inr (Some 7))
     \<lparr>index = [0, 3600000000000],
      columns = [(''0.45'', [None, Some 5]), (''1.45'', [None, Some 4])]\<rparr>
     \<lparr>index = [0, 3600000000000],
      columns = [(''0.45'', [Some (45 / 100), Some (45 / 100)]),
                 (''1.45'', [Some (145 / 100), Some (145 / 100)])]\<rparr>
     [(Some 0, Some 100), (Some 2, Some 50)] =
   Inr (\<lparr>index = [0, 3600000000000],
         columns = [(''0.45'', [None, Some 5]), (''1.45'', [None, Some 4]),
                    (''0'', [None, Some 5])]\<rparr>,
        \<lparr>index = [0, 3600000000000],
         columns = [(''0.45'', [Some (45 / 100), Some (45 / 100)]),
                    (''1.45'', [Some (145 / 100), Some (145 / 100)]),
                    (''0'', [None, Some 0])]\<rparr>,
        [(Some 0, Some 100), (Some 2, Some 50)],
        [None, Some 7]) \<and>
   [None, Some (7::real)] ! 0 = None \<and> [None, Some (7::real)] ! 0 \<noteq> Some 0 \<and>
   (\<exists>T' D' hs.
      heat_content (\<lambda>t a d z. Inr (Some 7))
        \<lparr>index = [0, 3600000000000],
         columns = [(''0.45'', [None, Some 5]), (''1.45'', [None, Some 4])]\<rparr>
        \<lparr>index = [0, 3600000000000],
         columns = [(''0.45'', [Some (45 / 100), Some (45 / 100)]),
                    (''1.45'', [Some (145 / 100), Some (145 / 100)])]\<rparr>
        [(Some 0, Some 100), (Some 2, Some 50)] =
      Inr (T', D', [(Some 0, Some 100), (Some 2, Some 50)], hs) \<and>
      length hs = 2 \<and> hs ! 0 = None)"
proof -
  have ev: "heat_content (\<lambda>t a d z. Inr (Some 7))
     \<lparr>index = [0, 3600000000000],
      columns = [(''0.45'', [None, Some 5]), (''1.45'', [None, Some 4])]\<rparr>
     \<lparr>index = [0, 3600000000000],
      columns = [(''0.45'', [Some (45 / 100), Some (45 / 100)]),
                 (''1.45'', [Some (145 / 100), Some (145 / 100)])]\<rparr>
     [(Some 0, Some 100), (Some 2, Some 50)] =
   Inr (\<lparr>index = [0, 3600000000000],
         columns = [(''0.45'', [None, Some 5]), (''1.45'', [None, Some 4]),
                    (''0'', [None, Some 5])]\<rparr>,
        \<lparr>index = [0, 3600000000000],
         columns = [(''0.45'', [Some (45 / 100), Some (45 / 100)]),
                    (''1.45'', [Some (145 / 100), Some (145 / 100)]),
                    (''0'', [None, Some 0])]\<rparr>,
        [(Some 0, Some 100), (Some 2, Some 50)],
        [None, Some 7])"
    by (simp add: heat_content_def add_surface_def getcol_def setcol_def align_msk_def
        isna_def iloc_def Let_def upt_rec)
  have c: "getcol \<lparr>index = [0, 3600000000000],
      columns = [(''0.45'', [None, Some 5]), (''1.45'', [None, Some (4::real)])]\<rparr> ''0.45'' =
      Inr [None, Some 5]"
    by (simp add: getcol_def)
  from heat_content_undefined_profile
         [of 0 "\<lparr>index = [0, 3600000000000],
                 columns = [(''0.45'', [None, Some 5]), (''1.45'', [None, Some 4])]\<rparr>"
             "\<lambda>t a d z. Inr (Some 7)"
             "\<lparr>index = [0, 3600000000000],
               columns = [(''0.45'', [Some (45 / 100), Some (45 / 100)]),
                          (''1.45'', [Some (145 / 100), Some (145 / 100)])]\<rparr>"
             "[(Some 0, Some 100), (Some 2, Some 50)]"
             _ _ _ _ "[None, Some 5]"]
       ev c
  show ?thesis by simp
qed

subsection \<open>The surface boundary\<close>






subsection \<open>What a call leaves of its arguments\<close>

lemma invoke_extends:
  assumes "list_all (\<lambda>a. a < length s) (call_args c)" "invoke s c = Inr (r, s')"
  shows "\<exists>new. s' = s @ new \<and> length s \<le> r"
  using assms
  by (cases c) (auto simp: alloc_def swrad_in_st_eq Let_def split: if_splits)

lemma heat_content_frame:
  assumes "heat_content hc temp_data depth_data bath_data = Inr (T, D, B, heatc_data)"
  shows "B = bath_data \<and> index T = index temp_data \<and> index D = index depth_data \<and>
         AList.delete ''0'' (columns T) = AList.delete ''0'' (columns temp_data) \<and>
         AList.delete ''0'' (columns D) = AList.delete ''0'' (columns depth_data) \<and>
         getcol T ''0'' = getcol temp_data ''0.45'' \<and> (\<exists>d0. getcol D ''0'' = Inr d0)"
proof -
  from assms obtain T1 D1 where
    surf: "add_surface temp_data depth_data = Inr (T1, D1)"
    and TD: "T = T1" "D = D1" "B = bath_data"
    by (auto simp: heat_content_def split: sum.splits)
  from add_surface_Inr[OF surf] TD show ?thesis
    by (auto simp: getcol_setcol index_setcol columns_setcol delete_update_same)
qed

text \<open>
  Claim C2, as stated, fails: \<open>heat_content\<close> assigns column \<open>0\<close> of the temperature
  table and of the depth table it is given. Here both tables have one more column
  after the call. (\<open>main\<close> reads \<open>temp_data["0"]\<close> after the call.)
\<close>

theorem heat_content_modifies_counterexample:
  "heat_content (\<lambda>t a d z. Inr (Some 7))
     \<lparr>index = [0], columns = [(''0.45'', [Some 5])]\<rparr>
     \<lparr>index = [0], columns = [(''0.45'', [Some (45 / 100)])]\<rparr>
     [(Some 0, Some 100)] =
   Inr (\<lparr>index = [0], columns = [(''0.45'', [Some 5]), (''0'', [Some 5])]\<rparr>,
        \<lparr>index = [0], columns = [(''0.45'', [Some (45 / 100)]), (''0'', [Some 0])]\<rparr>,
        [(Some 0, Some 100)],
        [Some 7]) \<and>
   \<lparr>index = [0::int], columns = [(''0.45'', [Some (5::real)]), (''0'', [Some 5])]\<rparr> \<noteq>
   \<lparr>index = [0], columns = [(''0.45'', [Some 5])]\<rparr> \<and>
   \<lparr>index = [0::int], columns = [(''0.45'', [Some (45 / 100 :: real)]), (''0'', [Some 0])]\<rparr> \<noteq>
   \<lparr>index = [0], columns = [(''0.45'', [Some (45 / 100)])]\<rparr>"
  by (simp add: heat_content_def add_surface_def getcol_def setcol_def align_msk_def
      isna_def iloc_def Let_def Area_m2_def Depth_m_def)

text \<open>
  Claim C2, amended. An invocation of a flux function on series of the store returns a
  new series and leaves every series the store held before the call as it was. When
  \<open>heat_content\<close> returns, the bathymetric curve is as it was, and so are the index
  and every column but \<open>0\<close> of the temperature table and of the depth table, in their
  order; column \<open>0\<close> of both tables has been assigned (in the temperature table, the
  column \<open>0.45\<close>).
\<close>

theorem arguments_after_call:
  "(list_all (\<lambda>a. a < length s) (call_args c) \<and> invoke s c = Inr (r, s') \<and> a < length s \<longrightarrow>
      s' ! a = s ! a \<and> length s \<le> r) \<and>
   (heat_content hc temp_data depth_data bath_data = Inr (T, D, B, heatc_data) \<longrightarrow>
      B = bath_data \<and> index T = index temp_data \<and> index D = index depth_data \<and>
      AList.delete ''0'' (columns T) = AList.delete ''0'' (columns temp_data) \<and>
      AList.delete ''0'' (columns D) = AList.delete ''0'' (columns depth_data) \<and>
      getcol T ''0'' = getcol temp_data ''0.45'' \<and> (\<exists>d0. getcol D ''0'' = Inr d0))"
proof (intro conjI impI)
  assume a: "list_all (\<lambda>a. a < length s) (call_args c) \<and> invoke s c = Inr (r, s') \<and> a < length s"
  with invoke_extends[of s c r s'] obtain new where "s' = s @ new" "length s \<le> r" by blast
  with a show "s' ! a = s ! a" "length s \<le> r" by (simp_all add: nth_append)
next
  assume "heat_content hc temp_data depth_data bath_data = Inr (T, D, B, heatc_data)"
  from heat_content_frame[OF this]
  show "B = bath_data" "index T = index temp_data" "index D = index depth_data"
    "AList.delete ''0'' (columns T) = AList.delete ''0'' (columns temp_data)"
    "AList.delete ''0'' (columns D) = AList.delete ''0'' (columns depth_data)"
    "getcol T ''0'' = getcol temp_data ''0.45''" "\<exists>d0. getcol D ''0'' = Inr d0"
    by simp_all
qed

theorem arguments_after_call_witness:
  "invoke [[Some 3, Some 10], [Some (1 / 10), Some (1 / 10)]] (Swrad_in 0 1) =
     Inr (4, [[Some 3, Some 10], [Some (1 / 10), Some (1 / 10)],
              [Some 3, Some 10], [Some 0, Some 1], [Some 3, Some 9]]) \<and>
   [[Some 3, Some 10], [Some (1 / 10), Some (1 / 10)],
    [Some 3, Some 10], [Some 0, Some 1], [Some 3, Some (9::real)]] ! 0 = [Some 3, Some 10] \<and>
   heat_content (\<lambda>t a d z. Inr (Some 7))
     \<lparr>index = [0], columns = [(''0'', [Some 1]), (''0.45'', [Some 5])]\<rparr>
     \<lparr>index = [0], columns = [(''0'', [Some 9]), (''0.45'', [Some (45 / 100)])]\<rparr>
     [(Some 0, Some 100)] =
   Inr (\<lparr>index = [0], columns = [(''0'', [Some 5]), (''0.45'', [Some 5])]\<rparr>,
        \<lparr>index = [0], columns = [(''0'', [Some 0]), (''0.45'', [Some (45 / 100)])]\<rparr>,
        [(Some 0, Some 100)],
        [Some 7]) \<and>
   AList.delete ''0'' [(''0'', [Some (5::real)]), (''0.45'', [Some 5])] =
     AList.delete ''0'' [(''0'', [Some 1]), (''0.45'', [Some 5])]"
proof -
  have ev1: "invoke [[Some 3, Some 10], [Some (1 / 10), Some (1 / 10)]] (Swrad_in 0 1) =
     Inr (4, [[Some 3, Some 10], [Some (1 / 10), Some (1 / 10)],
              [Some 3, Some 10], [Some 0, Some 1], [Some 3, Some 9]])"
    by (simp add: swrad_in_st_def alloc_def loc_set_def loc_get_def sel_mul_def
        enumerate_eq_zip upt_rec)
  have ev2: "heat_content (\<lambda>t a d z. Inr (Some 7))
     \<lparr>index = [0], columns = [(''0'', [Some 1]), (''0.45'', [Some 5])]\<rparr>
     \<lparr>index = [0], columns = [(''0'', [Some 9]), (''0.45'', [Some (45 / 100)])]\<rparr>
     [(Some 0, Some 100)] =
   Inr (\<lparr>index = [0], columns = [(''0'', [Some 5]), (''0.45'', [Some 5])]\<rparr>,
        \<lparr>index = [0], columns = [(''0'', [Some 0]), (''0.45'', [Some (45 / 100)])]\<rparr>,
        [(Some 0, Some 100)],
        [Some 7])"
    by (simp add: heat_content_def add_surface_def getcol_def setcol_def align_msk_def
        isna_def iloc_def Let_def Area_m2_def Depth_m_def)
  from arguments_after_call
         [of "[[Some 3, Some 10], [Some (1 / 10), Some (1 / 10)]]" "Swrad_in 0 1" 4
             "[[Some 3, Some 10], [Some (1 / 10), Some (1 / 10)],
               [Some 3, Some 10], [Some 0, Some 1], [Some 3, Some 9]]" 0
             "\<lambda>t a d z. Inr (Some 7)"
             "\<lparr>index = [0], columns = [(''0'', [Some 1]), (''0.45'', [Some 5])]\<rparr>"
             "\<lparr>index = [0], columns = [(''0'', [Some 9]), (''0.45'', [Some (45 / 100)])]\<rparr>"
             "[(Some 0, Some 100)]"]
       ev1 ev2
  show ?thesis by simp
qed

section \<open>Properties of the budget closure and the flow inference\<close>

subsection \<open>Series operations\<close>

lemma length_series_op: "length (series_op f xs ys) = max (length xs) (length ys)"
  by (simp add: series_op_def)

lemma nth_series_op:
  "i < max (length xs) (length ys) \<Longrightarrow>
   series_op f xs ys ! i = f (value_at xs i) (value_at ys i)"
  by (simp add: series_op_def del: upt_Suc)

lemma length_diff: "length (diff xs) = length xs"
  by (cases xs) simp_all

lemma nth_diff:
  "i < length xs \<Longrightarrow>
   diff xs ! i = (if i = 0 then None else fsub (xs ! i) (xs ! (i - 1)))"
  by (cases xs) (auto simp: nth_Cons')

lemma length_total_seconds_diff: "length (total_seconds_diff ts) = length ts"
  by (cases ts) simp_all

lemma nth_total_seconds_diff:
  "i < length ts \<Longrightarrow>
   total_seconds_diff ts ! i =
     (if i = 0 then None else Some (real_of_int (ts ! i - ts ! (i - 1)) / 10 ^ 9))"
  by (cases ts) (auto simp: nth_Cons')

lemma nth_main_dhdt:
  assumes "length idx = length heatc_data" "i < length heatc_data"
  shows "main_dhdt idx heatc_data ! i =
           (if i = 0 then None
            else fdiv (fsub (heatc_data ! i) (heatc_data ! (i - 1)))
                   (Some (real_of_int (idx ! i - idx ! (i - 1)) / 10 ^ 9)))"
  using assms
  by (simp add: main_dhdt_def nth_series_op length_diff length_total_seconds_diff
      value_at_def nth_diff nth_total_seconds_diff)

lemma length_main_dhdt:
  "length idx = length heatc_data \<Longrightarrow> length (main_dhdt idx heatc_data) = length heatc_data"
  by (simp add: main_dhdt_def length_series_op length_diff length_total_seconds_diff)

subsection \<open>The largest area of a curve\<close>

lemma defined_values_Some: "[a. Some a \<leftarrow> map Some xs] = xs"
  by (induction xs) simp_all

lemma fold_max_bounded:
  fixes a :: real
  shows "\<forall>x \<in> set as. x \<le> a \<Longrightarrow> fold max as a = a"
  by (induction as) (simp_all add: max_absorb2)

lemma series_max_nonincreasing:
  assumes "sorted_wrt (\<lambda>a b. b \<le> a) (a # as)"
  shows "series_max (map Some (a # as)) = Some a"
proof -
  from assms have "\<forall>x \<in> set as. x \<le> a" by simp
  then have "fold max as a = a" by (rule fold_max_bounded)
  moreover have "[b. Some b \<leftarrow> map Some (a # as)] = a # as"
    by (rule defined_values_Some)
  ultimately show ?thesis by (simp only: series_max_def list.case)
qed

subsection \<open>Residual power\<close>

text \<open>
  Claim C1. For aligned series (the heat contents, their time stamps and the net flux,
  of one length) the residual power at every position is
  \<open>-(dH/dt - net flux)\<close> times the largest area of the bathymetric curve, where
  \<open>dH/dt\<close> is missing at the first position and is afterwards the difference of the
  heat contents over the elapsed seconds. When the areas of the curve are defined and
  non-increasing along the curve and its first row is at depth 0, that largest area is
  the area at depth 0. Where all values are defined and the two time stamps differ, the
  residual power is the real number \<open>-((H\<^sub>i - H\<^sub>i\<^sub>-\<^sub>1) / seconds - F\<^sub>i) * A\<close>.
\<close>

theorem residual_power:
  assumes aligned: "length idx = length heatc_data" "length hnet = length heatc_data"
    and areas: "Area_m2 bath_data = map Some areas" "sorted_wrt (\<lambda>a b. b \<le> a) areas"
    and depth0: "bath_data \<noteq> []" "fst (hd bath_data) = Some 0"
    and i: "i < length heatc_data"
  shows "series_max (Area_m2 bath_data) = spec_area_at_depth0 bath_data \<and>
         spec_area_at_depth0 bath_data = Some (hd areas) \<and>
         length (main_dhw (main_dhdt idx heatc_data) hnet bath_data) = length heatc_data \<and>
         main_dhw (main_dhdt idx heatc_data) hnet bath_data ! i =
           fmul (fneg (fsub (main_dhdt idx heatc_data ! i) (hnet ! i)))
             (spec_area_at_depth0 bath_data) \<and>
         main_dhdt idx heatc_data ! i =
           (if i = 0 then None
            else fdiv (fsub (heatc_data ! i) (heatc_data ! (i - 1)))
                   (Some (real_of_int (idx ! i - idx ! (i - 1)) / 10 ^ 9))) \<and>
         (0 < i \<and> heatc_data ! i = Some H1 \<and> heatc_data ! (i - 1) = Some H0 \<and>
          hnet ! i = Some F \<and> idx ! i \<noteq> idx ! (i - 1) \<longrightarrow>
            main_dhw (main_dhdt idx heatc_data) hnet bath_data ! i =
              Some (- ((H1 - H0) / (real_of_int (idx ! i - idx ! (i - 1)) / 10 ^ 9) - F)
                      * hd areas))"
proof -
  from depth0 obtain a rest where bath: "bath_data = (Some 0, a) # rest"
    by (cases bath_data) auto
  with areas(1) obtain A as where ar: "areas = A # as" and a: "a = Some A"
    by (cases areas) (auto simp: Area_m2_def)
  have at0: "spec_area_at_depth0 bath_data = Some (hd areas)"
    by (simp add: spec_area_at_depth0_def bath a ar)
  have mx: "series_max (Area_m2 bath_data) = Some (hd areas)"
    using series_max_nonincreasing[of A as] areas ar by simp
  have len: "length (main_dhdt idx heatc_data) = length heatc_data"
    by (rule length_main_dhdt[OF aligned(1)])
  have dhdt: "main_dhdt idx heatc_data ! i =
           (if i = 0 then None
            else fdiv (fsub (heatc_data ! i) (heatc_data ! (i - 1)))
                   (Some (real_of_int (idx ! i - idx ! (i - 1)) / 10 ^ 9)))"
    by (rule nth_main_dhdt[OF aligned(1) i])
  have dhw: "main_dhw (main_dhdt idx heatc_data) hnet bath_data ! i =
           fmul (fneg (fsub (main_dhdt idx heatc_data ! i) (hnet ! i))) (Some (hd areas))"
    using i aligned(2) len
    by (simp add: main_dhw_def length_series_op nth_series_op value_at_def mx)
  have dlen: "length (main_dhw (main_dhdt idx heatc_data) hnet bath_data) = length heatc_data"
    using aligned(2) len by (simp add: main_dhw_def length_series_op)
  have num: "0 < i \<and> heatc_data ! i = Some H1 \<and> heatc_data ! (i - 1) = Some H0 \<and>
          hnet ! i = Some F \<and> idx ! i \<noteq> idx ! (i - 1) \<longrightarrow>
            main_dhw (main_dhdt idx heatc_data) hnet bath_data ! i =
              Some (- ((H1 - H0) / (real_of_int (idx ! i - idx ! (i - 1)) / 10 ^ 9) - F)
                      * hd areas)"
    by (simp add: dhw dhdt)
  from at0 mx dlen dhw dhdt num show ?thesis by simp
qed

theorem residual_power_witness:
  "Area_m2 [(Some 0, Some 100), (Some 2, Some 50)] = map Some [100, 50] \<and>
   sorted_wrt (\<lambda>a b. b \<le> a) [100, 50 :: real] \<and>
   series_max (Area_m2 [(Some 0, Some 100), (Some 2, Some 50)]) = Some 100 \<and>
   spec_area_at_depth0 [(Some 0, Some 100), (Some 2, Some 50)] = Some 100 \<and>
   main_dhw (main_dhdt [0, 3600000000000] [Some 7200, Some 10800]) [Some 3, Some 3]
     [(Some 0, Some 100), (Some 2, Some 50)] ! 1 = Some 200"
  using residual_power
          [of "[0, 3600000000000]" "[Some 7200, Some 10800]" "[Some 3, Some 3]"
              "[(Some 0, Some 100), (Some 2, Some 50)]" "[100, 50]" 1 10800 7200 3]
  by (simp add: Area_m2_def)

subsection \<open>Flow inference\<close>

lemma ramp_positive:
  fixes m :: real
  assumes "0 < m" "i < k"
  shows "0 < real i * ((m - 2) / real k) + 2"
proof -
  have k: "0 < real k" using assms by simp
  have "real i * ((m - 2) / real k) + 2 = (real i * m + 2 * (real k - real i)) / real k"
    using k by (simp add: field_simps)
  moreover have "0 < real i * m + 2 * (real k - real i)"
  proof -
    have "0 \<le> real i * m" using assms by simp
    moreover have "0 < 2 * (real k - real i)" using assms by simp
    ultimately show ?thesis by linarith
  qed
  ultimately show ?thesis using k by simp
qed

lemma nth_linspace:
  assumes "i < num"
  shows "linspace (Some 2) (Some m) num ! i =
           Some (if num = 1 then 2
                 else if i = num - 1 then m
                 else real i * ((m - 2) / real (num - 1)) + 2)"
  using assms by (auto simp: linspace_def simp del: upt_Suc)

lemma length_linspace: "length (linspace start stop num) = num"
  by (simp add: linspace_def)

text \<open>
  Claim C10. The inflow temperature is the ramp of \<open>np.linspace\<close> from 2 to the
  largest value \<open>m\<close> of the surface temperature column. When \<open>m\<close> is positive and the
  density function gives a positive density at every positive temperature, then at
  every position the inflow temperature \<open>T\<close> is defined and positive, the density
  \<open>rho\<close> there is defined and positive, the denominator is \<open>rho * 4186 * T\<close>, which
  is positive, and the flow is the residual power divided by it: the division is never
  one by zero.
\<close>

theorem flow_denominator_positive:
  assumes mx: "series_max temp0 = Some m" and m: "0 < m"
    and dens: "\<forall>t. 0 < t \<longrightarrow> (\<exists>rho. dens0 (Some t) = Some rho \<and> 0 < rho)"
    and i: "i < length dhw"
  shows "\<exists>T rho. main_wtemp temp0 dhw ! i = Some T \<and>
           T = (if length dhw = 1 then 2 else 2 + real i * (m - 2) / real (length dhw - 1)) \<and>
           0 < T \<and>
           dens0 (Some T) = Some rho \<and> 0 < rho \<and>
           main_wheat dens0 (main_wtemp temp0 dhw) ! i = Some (rho * 4186 * T) \<and>
           0 < rho * 4186 * T \<and>
           main_flow dhw (main_wheat dens0 (main_wtemp temp0 dhw)) ! i =
             map_option (\<lambda>r. r / (rho * 4186 * T)) (dhw ! i)"
proof -
  let ?n = "length dhw"
  define T where "T = (if ?n = 1 then 2 else 2 + real i * (m - 2) / real (?n - 1))"
  have last: "?n \<noteq> 1 \<and> i = ?n - 1 \<longrightarrow> real i * (m - 2) / real (?n - 1) = m - 2"
    using i by auto
  have wt: "main_wtemp temp0 dhw ! i = Some T"
    using i last by (auto simp: T_def main_wtemp_def mx nth_linspace)
  have Tpos: "0 < T"
  proof (cases "?n = 1 \<or> i = ?n - 1")
    case True
    with last m show ?thesis by (auto simp: T_def)
  next
    case False
    with i have "i < ?n - 1" by linarith
    from ramp_positive[OF m this] False show ?thesis by (simp add: T_def add.commute)
  qed
  from dens Tpos obtain rho where rho: "dens0 (Some T) = Some rho" "0 < rho" by blast
  define c where "c = rho * 4186 * T"
  have lw: "length (main_wtemp temp0 dhw) = ?n"
    by (simp add: main_wtemp_def length_linspace)
  have wh: "main_wheat dens0 (main_wtemp temp0 dhw) ! i = Some c"
    using i lw by (simp add: main_wheat_def wt rho c_def)
  have cpos: "0 < c" using rho Tpos by (simp add: c_def)
  have "main_flow dhw (main_wheat dens0 (main_wtemp temp0 dhw)) ! i =
          fdiv (dhw ! i) (main_wheat dens0 (main_wtemp temp0 dhw) ! i)"
    using i lw by (simp add: main_flow_def main_wheat_def)
  with wh cpos
  have fl: "main_flow dhw (main_wheat dens0 (main_wtemp temp0 dhw)) ! i =
              map_option (\<lambda>r. r / c) (dhw ! i)"
    by (cases "dhw ! i") simp_all
  from wt Tpos rho wh cpos fl T_def show ?thesis unfolding c_def by blast
qed

theorem flow_denominator_positive_witness:
  "series_max [Some 4, None, Some 20] = Some 20 \<and> (0::real) < 20 \<and>
   main_wtemp [Some 4, None, Some 20] [None, Some 8372000, Some 83720000] =
     [Some 2, Some 11, Some 20] \<and>
   main_wheat (\<lambda>t. Some 1000)
     (main_wtemp [Some 4, None, Some 20] [None, Some 8372000, Some 83720000]) ! 2 =
     Some (1000 * 4186 * 20) \<and>
   main_flow [None, Some 8372000, Some 83720000]
     (main_wheat (\<lambda>t. Some 1000)
        (main_wtemp [Some 4, None, Some 20] [None, Some 8372000, Some 83720000])) ! 2 =
     Some 1"
proof -
  have mx: "series_max [Some 4, None, Some 20] = Some 20"
    by (simp add: series_max_def)
  have wt: "main_wtemp [Some 4, None, Some 20] [None, Some 8372000, Some 83720000] =
     [Some 2, Some 11, Some 20]"
    by (simp add: main_wtemp_def mx linspace_def upt_rec)
  from flow_denominator_positive
         [of "[Some 4, None, Some 20]" 20 "\<lambda>t. Some 1000" 2
             "[None, Some 8372000, Some 83720000]", OF mx]
  show ?thesis using mx wt by auto
qed

end
